theory Spec2Isabelle
  imports Complex_Main "HOL-Library.Sublist"
begin

section \<open>Data model\<close>

text \<open>
  A sample buffer (\<^verbatim>\<open>np.ndarray\<close> of amplitudes) is a list of reals. The filter type is
  the \<^verbatim>\<open>btype\<close> string, of which the repository uses \<^verbatim>\<open>"high"\<close>, \<^verbatim>\<open>"low"\<close> and
  \<^verbatim>\<open>"band"\<close>. The \<^verbatim>\<open>cutoff\<close> argument is an integer, or the two-element list
  \<^verbatim>\<open>[bandpass_low, bandpass_high]\<close>, the only list the repository ever builds.
  Sample rates and cutoffs are Python integers; \<^verbatim>\<open>sr / 2\<close> and \<^verbatim>\<open>0.5 * fs\<close> are
  read as exact real arithmetic.
\<close>

type_synonym buffer = "real list"

datatype btype = Low | High | Band

datatype cutoff = Single int | Edges int int

datatype normal_cutoff = NSingle real | NEdges real real

text \<open>
  The failures of the filter code: a float division by zero, an operation on the wrong
  shape of cutoff, and the designer's rejection of a cutoff (the spec's
  \<^verbatim>\<open>InvalidCutoffError\<close>). \<^verbatim>\<open>DecodeUnavailableError\<close> is the spec's fourth kind;
  no line of the source constructs it.
\<close>

datatype error = ZeroDivisionError | TypeError | InvalidCutoffError | DecodeUnavailableError

type_synonym coefficients = "real list \<times> real list"

text \<open>
  The numerical Butterworth design (poles, bilinear transform) is the library's; it is a
  parameter of the model: order, normalized cutoff and type give the pair \<open>(b, a)\<close>.
\<close>

type_synonym designer = "nat \<Rightarrow> normal_cutoff \<Rightarrow> btype \<Rightarrow> coefficients"

section \<open>gen.py\<close>

definition FILTER_UPPER_BOUND :: int where
  "FILTER_UPPER_BOUND = 20000"

definition FILTER_LOWER_BOUND :: int where
  "FILTER_LOWER_BOUND = 0"

text \<open>Python's \<^verbatim>\<open>/\<close> on floats raises on a zero divisor.\<close>

definition truediv :: "real \<Rightarrow> real \<Rightarrow> error + real" where
  "truediv x d = (if d = 0 then Inl ZeroDivisionError else Inr (x / d))"

text \<open>
  Lines 22 to 25 of \<^verbatim>\<open>butter_filter\<close>: the cutoff divided by the Nyquist frequency,
  a scalar for \<^verbatim>\<open>"low"\<close> and \<^verbatim>\<open>"high"\<close>, elementwise otherwise. Dividing a list by a
  float, or iterating over an integer, is a \<^verbatim>\<open>TypeError\<close>.
\<close>

definition normalize :: "btype \<Rightarrow> cutoff \<Rightarrow> real \<Rightarrow> error + normal_cutoff" where
  "normalize bt c nyquist =
     (if bt = Low \<or> bt = High then
        (case c of
           Single k \<Rightarrow>
             (case truediv (real_of_int k) nyquist of
                Inl e \<Rightarrow> Inl e
              | Inr w \<Rightarrow> Inr (NSingle w))
         | Edges lo hi \<Rightarrow> Inl TypeError)
      else
        (case c of
           Single k \<Rightarrow> Inl TypeError
         | Edges lo hi \<Rightarrow>
             (case truediv (real_of_int lo) nyquist of
                Inl e \<Rightarrow> Inl e
              | Inr l \<Rightarrow>
                  (case truediv (real_of_int hi) nyquist of
                     Inl e \<Rightarrow> Inl e
                   | Inr h \<Rightarrow> Inr (NEdges l h)))))"

text \<open>
  Modelled from the spec: the validation of \<^verbatim>\<open>scipy.signal.butter\<close>, a library
  function whose code is not in the repository. Section 4.1: a design is refused when a
  normalized cutoff is at most 0 or at least 1, or when the band's low edge is not below
  its high edge.
\<close>

fun invalid_cutoff :: "normal_cutoff \<Rightarrow> bool" where
  "invalid_cutoff (NSingle w) = (w \<le> 0 \<or> 1 \<le> w)"
| "invalid_cutoff (NEdges l h) = (l \<le> 0 \<or> 1 \<le> l \<or> h \<le> 0 \<or> 1 \<le> h \<or> h \<le> l)"

text \<open>
  Modelled from the spec: \<^verbatim>\<open>scipy.signal.butter\<close>, whose code is not in the
  repository. Section 4.1: the design fails with \<^verbatim>\<open>InvalidCutoffError\<close> on a refused
  cutoff and yields the coefficients otherwise.
\<close>

definition butter :: "designer \<Rightarrow> nat \<Rightarrow> normal_cutoff \<Rightarrow> btype \<Rightarrow> error + coefficients" where
  "butter D order Wn bt =
     (if invalid_cutoff Wn then Inl InvalidCutoffError else Inr (D order Wn bt))"

text \<open>
  Modelled from the spec: the weighted sum of \<^verbatim>\<open>scipy.signal.lfilter\<close>, whose code
  is not in the repository. Section 4.2: weights against samples, pairwise; a weight
  with no sample to meet (before the start of the buffer) adds nothing.
\<close>

definition dot :: "real list \<Rightarrow> real list \<Rightarrow> real" where
  "dot ws vs = sum_list (map2 (*) ws vs)"

text \<open>
  Modelled from the spec: the recursion of \<^verbatim>\<open>scipy.signal.lfilter\<close>, whose code is
  not in the repository. Section 4.2: one causal pass from start to end; each output
  sample is the feed-forward weighted sum of the current and past inputs minus the
  feedback weighted sum of the past outputs. The histories \<open>xpast\<close> and \<open>ypast\<close> hold
  the most recent sample first.
\<close>

fun lfilter_from :: "real list \<Rightarrow> real list \<Rightarrow> real list \<Rightarrow> real list \<Rightarrow> buffer \<Rightarrow> buffer" where
  "lfilter_from b a xpast ypast [] = []"
| "lfilter_from b a xpast ypast (x # xs) =
     (let y = dot b (x # xpast) - dot (tl a) ypast
      in y # lfilter_from b a (x # xpast) (y # ypast) xs)"

text \<open>
  Modelled from the spec: \<^verbatim>\<open>scipy.signal.lfilter\<close>, whose code is not in the
  repository. Section 4.2: the pass starts with empty histories.
\<close>

definition lfilter :: "real list \<Rightarrow> real list \<Rightarrow> buffer \<Rightarrow> buffer" where
  "lfilter b a x = lfilter_from b a [] [] x"

text \<open>
  Lines 21 to 26 of \<^verbatim>\<open>butter_filter\<close>, the spec's FilterDesigner: normalize by the
  Nyquist frequency, then design.
\<close>

definition filter_design :: "designer \<Rightarrow> nat \<Rightarrow> cutoff \<Rightarrow> int \<Rightarrow> btype \<Rightarrow> error + coefficients" where
  "filter_design D order c fs bt =
     (let nyquist = 0.5 * real_of_int fs in
      case normalize bt c nyquist of
        Inl e \<Rightarrow> Inl e
      | Inr normal_cutoff \<Rightarrow> butter D order normal_cutoff bt)"

text \<open>\<^verbatim>\<open>butter_filter\<close> (gen.py, lines 20 to 28): design, then apply.\<close>

definition butter_filter :: "designer \<Rightarrow> buffer \<Rightarrow> cutoff \<Rightarrow> int \<Rightarrow> btype \<Rightarrow> nat \<Rightarrow> error + buffer" where
  "butter_filter D data c fs bt order =
     (case filter_design D order c fs bt of
        Inl e \<Rightarrow> Inl e
      | Inr (b, a) \<Rightarrow> Inr (lfilter b a data))"

text \<open>
  \<^verbatim>\<open>apply_filters\<close> (gen.py, lines 38 to 52), with the function it calls at lines 47,
  49 and 51 as the parameter \<open>stage\<close>: the three guards, the three calls in the order
  the source makes them, and the rebinding of \<^verbatim>\<open>y\<close> between them. An exception of a
  stage leaves the function at once.
\<close>

type_synonym stage = "buffer \<Rightarrow> cutoff \<Rightarrow> int \<Rightarrow> btype \<Rightarrow> error + buffer"

definition apply_filters_with :: "stage \<Rightarrow> buffer \<Rightarrow> int \<Rightarrow> int \<Rightarrow> int \<Rightarrow> int \<Rightarrow> int \<Rightarrow> error + buffer" where
  "apply_filters_with stage y sr highpass_cutoff lowpass_cutoff bandpass_low bandpass_high =
     (case (if highpass_cutoff > FILTER_LOWER_BOUND
            then stage y (Single highpass_cutoff) sr High
            else Inr y) of
        Inl e \<Rightarrow> Inl e
      | Inr y1 \<Rightarrow>
          (case (if lowpass_cutoff > FILTER_LOWER_BOUND
                    \<and> real_of_int lowpass_cutoff < real_of_int sr / 2
                 then stage y1 (Single lowpass_cutoff) sr Low
                 else Inr y1) of
             Inl e \<Rightarrow> Inl e
           | Inr y2 \<Rightarrow>
               (if bandpass_low > FILTER_LOWER_BOUND
                   \<and> real_of_int bandpass_high < real_of_int sr / 2
                then stage y2 (Edges bandpass_low bandpass_high) sr Band
                else Inr y2)))"

text \<open>
  \<^verbatim>\<open>apply_filters\<close> (gen.py, lines 38 to 52): the stage is \<^verbatim>\<open>butter_filter\<close>, called
  without an order, so with its default 5.
\<close>

definition apply_filters :: "designer \<Rightarrow> buffer \<Rightarrow> int \<Rightarrow> int \<Rightarrow> int \<Rightarrow> int \<Rightarrow> int \<Rightarrow> error + buffer" where
  "apply_filters D y sr highpass_cutoff lowpass_cutoff bandpass_low bandpass_high =
     apply_filters_with (\<lambda>data c fs bt. butter_filter D data c fs bt 5)
       y sr highpass_cutoff lowpass_cutoff bandpass_low bandpass_high"

section \<open>main.py\<close>

text \<open>main.py holds its own copies of the bounds and of the two filter functions.\<close>

definition main_FILTER_LOWER_BOUND :: int where
  "main_FILTER_LOWER_BOUND = 0"

text \<open>\<^verbatim>\<open>butter_filter\<close> (main.py, lines 14 to 22).\<close>

definition main_butter_filter :: "designer \<Rightarrow> buffer \<Rightarrow> cutoff \<Rightarrow> int \<Rightarrow> btype \<Rightarrow> nat \<Rightarrow> error + buffer" where
  "main_butter_filter D data c fs bt order =
     (let nyquist = 0.5 * real_of_int fs in
      case normalize bt c nyquist of
        Inl e \<Rightarrow> Inl e
      | Inr normal_cutoff \<Rightarrow>
          (case butter D order normal_cutoff bt of
             Inl e \<Rightarrow> Inl e
           | Inr (b, a) \<Rightarrow> Inr (lfilter b a data)))"

text \<open>\<^verbatim>\<open>apply_filters\<close> (main.py, lines 32 to 46).\<close>

definition main_apply_filters :: "designer \<Rightarrow> buffer \<Rightarrow> int \<Rightarrow> int \<Rightarrow> int \<Rightarrow> int \<Rightarrow> int \<Rightarrow> error + buffer" where
  "main_apply_filters D y sr highpass_cutoff lowpass_cutoff bandpass_low bandpass_high =
     (case (if highpass_cutoff > main_FILTER_LOWER_BOUND
            then main_butter_filter D y (Single highpass_cutoff) sr High 5
            else Inr y) of
        Inl e \<Rightarrow> Inl e
      | Inr y1 \<Rightarrow>
          (case (if lowpass_cutoff > main_FILTER_LOWER_BOUND
                    \<and> real_of_int lowpass_cutoff < real_of_int sr / 2
                 then main_butter_filter D y1 (Single lowpass_cutoff) sr Low 5
                 else Inr y1) of
             Inl e \<Rightarrow> Inl e
           | Inr y2 \<Rightarrow>
               (if bandpass_low > main_FILTER_LOWER_BOUND
                   \<and> real_of_int bandpass_high < real_of_int sr / 2
                then main_butter_filter D y2 (Edges bandpass_low bandpass_high) sr Band 5
                else Inr y2)))"

section \<open>The pipeline of gen.py\<close>

text \<open>
  \<^verbatim>\<open>analyze_audio\<close> (gen.py, lines 55 to 195). \<^verbatim>\<open>librosa.load\<close> is the excluded
  decoder: a parameter that yields the buffer and its sample rate, or fails. The feature
  computations of lines 68 to 195 (librosa's analyses and their rendering, which capture
  \<^verbatim>\<open>filename\<close>) are library calls as well: one parameter that takes the file name,
  the filtered buffer and the sample rate. Between the two, the function does nothing
  but run the filter chain.
\<close>

type_synonym loader = "string \<Rightarrow> error + (buffer \<times> int)"

type_synonym 'r features = "string \<Rightarrow> buffer \<Rightarrow> int \<Rightarrow> error + 'r"

text \<open>\<^verbatim>\<open>os.path.basename\<close>: what follows the last slash.\<close>

definition basename :: "string \<Rightarrow> string" where
  "basename file = rev (takeWhile (\<lambda>ch. ch \<noteq> CHR ''/'') (rev file))"

definition analyze_audio :: "designer \<Rightarrow> loader \<Rightarrow> 'r features \<Rightarrow> string \<Rightarrow> int \<Rightarrow> int \<Rightarrow> int \<Rightarrow> int \<Rightarrow> error + 'r" where
  "analyze_audio D load feats file highpass_cutoff lowpass_cutoff bandpass_low bandpass_high =
     (let filename = basename file in
      case load file of
        Inl e \<Rightarrow> Inl e
      | Inr (y, sr) \<Rightarrow>
          (case apply_filters D y sr highpass_cutoff lowpass_cutoff bandpass_low bandpass_high of
             Inl e \<Rightarrow> Inl e
           | Inr y' \<Rightarrow> feats filename y' sr))"

section \<open>The chain as the specification words it\<close>

text \<open>
  Section 4.3 of the specification: the stages that run, in the order high-pass,
  low-pass, band-pass, each kept when its condition holds; and their sequential
  execution by a stage function, each stage on the output of the one before, a failure
  ending the run.
\<close>

definition chain_stages :: "int \<Rightarrow> int \<Rightarrow> int \<Rightarrow> int \<Rightarrow> int \<Rightarrow> (btype \<times> cutoff) list" where
  "chain_stages sr hp lp bl bh =
     (if 0 < hp then [(High, Single hp)] else []) @
     (if 0 < lp \<and> real_of_int lp < real_of_int sr / 2 then [(Low, Single lp)] else []) @
     (if 0 < bl \<and> real_of_int bh < real_of_int sr / 2 then [(Band, Edges bl bh)] else [])"

fun run_stages :: "stage \<Rightarrow> int \<Rightarrow> (btype \<times> cutoff) list \<Rightarrow> buffer \<Rightarrow> error + buffer" where
  "run_stages stage sr [] y = Inr y"
| "run_stages stage sr ((bt, c) # ss) y =
     (case stage y c sr bt of
        Inl e \<Rightarrow> Inl e
      | Inr y' \<Rightarrow> run_stages stage sr ss y')"

section \<open>The filter functions over a store of arrays\<close>

text \<open>
  For the claims about mutation and fresh buffers the arrays live in a store: an array's
  address is its index, and a new array takes the next free index. A Python reference
  always points at a live array, so the theorems take an address inside the store.
\<close>

type_synonym addr = nat

type_synonym store = "buffer list"

definition new_array :: "store \<Rightarrow> buffer \<Rightarrow> store \<times> addr" where
  "new_array s v = (s @ [v], length s)"

text \<open>
  Modelled from the spec: \<^verbatim>\<open>scipy.signal.lfilter\<close> on arrays, whose code is not in
  the repository. Section 4.2: it produces a new buffer and does not mutate its input.
\<close>

definition lfilter_st :: "store \<Rightarrow> real list \<Rightarrow> real list \<Rightarrow> addr \<Rightarrow> store \<times> addr" where
  "lfilter_st s b a x = new_array s (lfilter b a (s ! x))"

text \<open>
  \<^verbatim>\<open>butter_filter\<close> (gen.py, lines 20 to 28) on the store: the body designs, calls
  \<^verbatim>\<open>lfilter\<close> on \<^verbatim>\<open>data\<close> and returns the reference it got; it has no assignment
  into \<^verbatim>\<open>data\<close>.
\<close>

definition butter_filter_st :: "designer \<Rightarrow> store \<Rightarrow> addr \<Rightarrow> cutoff \<Rightarrow> int \<Rightarrow> btype \<Rightarrow> nat \<Rightarrow> error + (store \<times> addr)" where
  "butter_filter_st D s data c fs bt order =
     (case filter_design D order c fs bt of
        Inl e \<Rightarrow> Inl e
      | Inr (b, a) \<Rightarrow> Inr (lfilter_st s b a data))"

text \<open>
  \<^verbatim>\<open>apply_filters\<close> (gen.py, lines 38 to 52) on the store: each \<^verbatim>\<open>y = ...\<close> rebinds
  the local name to the reference the stage returned.
\<close>

definition apply_filters_st :: "designer \<Rightarrow> store \<Rightarrow> addr \<Rightarrow> int \<Rightarrow> int \<Rightarrow> int \<Rightarrow> int \<Rightarrow> int \<Rightarrow> error + (store \<times> addr)" where
  "apply_filters_st D s y sr highpass_cutoff lowpass_cutoff bandpass_low bandpass_high =
     (case (if highpass_cutoff > FILTER_LOWER_BOUND
            then butter_filter_st D s y (Single highpass_cutoff) sr High 5
            else Inr (s, y)) of
        Inl e \<Rightarrow> Inl e
      | Inr (s1, y1) \<Rightarrow>
          (case (if lowpass_cutoff > FILTER_LOWER_BOUND
                    \<and> real_of_int lowpass_cutoff < real_of_int sr / 2
                 then butter_filter_st D s1 y1 (Single lowpass_cutoff) sr Low 5
                 else Inr (s1, y1)) of
             Inl e \<Rightarrow> Inl e
           | Inr (s2, y2) \<Rightarrow>
               (if bandpass_low > FILTER_LOWER_BOUND
                   \<and> real_of_int bandpass_high < real_of_int sr / 2
                then butter_filter_st D s2 y2 (Edges bandpass_low bandpass_high) sr Band 5
                else Inr (s2, y2))))"

section \<open>The chain of gen.py on its stage\<close>

lemma apply_filters_body:
  "apply_filters D y sr highpass_cutoff lowpass_cutoff bandpass_low bandpass_high =
     (case (if highpass_cutoff > FILTER_LOWER_BOUND
            then butter_filter D y (Single highpass_cutoff) sr High 5
            else Inr y) of
        Inl e \<Rightarrow> Inl e
      | Inr y1 \<Rightarrow>
          (case (if lowpass_cutoff > FILTER_LOWER_BOUND
                    \<and> real_of_int lowpass_cutoff < real_of_int sr / 2
                 then butter_filter D y1 (Single lowpass_cutoff) sr Low 5
                 else Inr y1) of
             Inl e \<Rightarrow> Inl e
           | Inr y2 \<Rightarrow>
               (if bandpass_low > FILTER_LOWER_BOUND
                   \<and> real_of_int bandpass_high < real_of_int sr / 2
                then butter_filter D y2 (Edges bandpass_low bandpass_high) sr Band 5
                else Inr y2)))"
  unfolding apply_filters_def apply_filters_with_def by (rule refl)

section \<open>The filter chain with every stage disabled\<close>

text \<open>
  C1. With the four cutoffs at the disabled value \<open>FILTER_LOWER_BOUND - 1\<close> the chain
  returns the buffer it was given, whatever the buffer and the sample rate, in gen.py as
  in main.py: no stage runs.
\<close>

theorem apply_filters_disabled_passthrough:
  "apply_filters D B R (FILTER_LOWER_BOUND - 1) (FILTER_LOWER_BOUND - 1)
       (FILTER_LOWER_BOUND - 1) (FILTER_LOWER_BOUND - 1) = Inr B
   \<and> main_apply_filters D B R (main_FILTER_LOWER_BOUND - 1) (main_FILTER_LOWER_BOUND - 1)
       (main_FILTER_LOWER_BOUND - 1) (main_FILTER_LOWER_BOUND - 1) = Inr B"
  by (simp add: apply_filters_body main_apply_filters_def)

section \<open>The order and the guards of the stages\<close>

text \<open>
  C4. For every buffer, sample rate and four cutoffs, and for every stage function, the
  chain of gen.py is the sequential run of at most three stages, in the order high-pass,
  low-pass, band-pass, each on the output of the one before; so it is with
  \<^verbatim>\<open>butter_filter\<close> as the stage. The high-pass stage is among them exactly when its
  cutoff is above 0 (no test against Nyquist), the low-pass stage exactly when its cutoff
  is above 0 and below half the sample rate, the band-pass stage exactly when the low
  edge is above 0 and the high edge below half the sample rate.
\<close>

theorem apply_filters_stage_order:
  "apply_filters_with stage y sr hp lp bl bh
     = run_stages stage sr (chain_stages sr hp lp bl bh) y
   \<and> apply_filters D y sr hp lp bl bh
     = run_stages (\<lambda>data c fs bt. butter_filter D data c fs bt 5) sr
         (chain_stages sr hp lp bl bh) y
   \<and> length (chain_stages sr hp lp bl bh) \<le> 3
   \<and> subseq (map fst (chain_stages sr hp lp bl bh)) [High, Low, Band]
   \<and> ((High, Single hp) \<in> set (chain_stages sr hp lp bl bh)) = (0 < hp)
   \<and> ((Low, Single lp) \<in> set (chain_stages sr hp lp bl bh))
        = (0 < lp \<and> real_of_int lp < real_of_int sr / 2)
   \<and> ((Band, Edges bl bh) \<in> set (chain_stages sr hp lp bl bh))
        = (0 < bl \<and> real_of_int bh < real_of_int sr / 2)"
proof -
  define g1 where "g1 = (0 < hp)"
  define g2 where "g2 = (0 < lp \<and> real_of_int lp < real_of_int sr / 2)"
  define g3 where "g3 = (0 < bl \<and> real_of_int bh < real_of_int sr / 2)"
  have run: "apply_filters_with f y sr hp lp bl bh
      = run_stages f sr (chain_stages sr hp lp bl bh) y" for f
    unfolding apply_filters_with_def chain_stages_def FILTER_LOWER_BOUND_def
      g1_def [symmetric] g2_def [symmetric] g3_def [symmetric]
    by (cases g1; cases g2; cases g3) (simp_all split: sum.splits)
  have code: "apply_filters D y sr hp lp bl bh
      = run_stages (\<lambda>data c fs bt. butter_filter D data c fs bt 5) sr
          (chain_stages sr hp lp bl bh) y"
    unfolding apply_filters_def by (rule run)
  have count: "length (chain_stages sr hp lp bl bh) \<le> 3"
    by (simp add: chain_stages_def)
  have order: "subseq (map fst (chain_stages sr hp lp bl bh)) [High, Low, Band]"
    by (simp add: chain_stages_def)
  have high: "((High, Single hp) \<in> set (chain_stages sr hp lp bl bh)) = (0 < hp)"
    by (simp add: chain_stages_def)
  have low: "((Low, Single lp) \<in> set (chain_stages sr hp lp bl bh))
      = (0 < lp \<and> real_of_int lp < real_of_int sr / 2)"
    by (simp add: chain_stages_def)
  have band: "((Band, Edges bl bh) \<in> set (chain_stages sr hp lp bl bh))
      = (0 < bl \<and> real_of_int bh < real_of_int sr / 2)"
    by (simp add: chain_stages_def)
  from run [of stage] code count order high low band show ?thesis by blast
qed

text \<open>
  The order is visible with a stage that records its type at the end of the buffer: with
  the three stages on, the chain of gen.py leaves high, low, band, in this order.
\<close>

lemma apply_filters_with_records_order:
  "apply_filters_with
       (\<lambda>data c fs bt. Inr (data @ [case bt of High \<Rightarrow> 1 | Low \<Rightarrow> 2 | Band \<Rightarrow> 3]))
       [] 22050 1000 5000 100 200
     = Inr [1, 2, 3]"
  by (simp add: apply_filters_with_def FILTER_LOWER_BOUND_def)

section \<open>The two copies of the filter functions\<close>

text \<open>
  C9. The filter functions of main.py are extensionally equal to those of gen.py:
  \<^verbatim>\<open>butter_filter\<close> agrees on every data, cutoff, sample rate, type and order, and
  \<^verbatim>\<open>apply_filters\<close> on every buffer, sample rate and four cutoffs.
\<close>

theorem main_filters_equal_gen:
  "main_butter_filter = butter_filter \<and> main_apply_filters = apply_filters"
proof -
  have bf: "main_butter_filter = butter_filter"
    unfolding main_butter_filter_def butter_filter_def filter_design_def
    by (intro ext) (simp split: sum.splits)
  have "main_apply_filters = apply_filters"
    unfolding main_apply_filters_def apply_filters_body bf
      main_FILTER_LOWER_BOUND_def FILTER_LOWER_BOUND_def
    by (rule refl)
  with bf show ?thesis by simp
qed

section \<open>Facts about the designer\<close>

lemma filter_design_single:
  "fs \<noteq> 0 \<Longrightarrow> bt \<noteq> Band \<Longrightarrow> filter_design D ord (Single k) fs bt =
     butter D ord (NSingle (real_of_int k / (0.5 * real_of_int fs))) bt"
  by (cases bt) (simp_all add: filter_design_def normalize_def truediv_def)

lemma filter_design_edges:
  "fs \<noteq> 0 \<Longrightarrow> filter_design D ord (Edges lo hi) fs Band =
     butter D ord (NEdges (real_of_int lo / (0.5 * real_of_int fs)) (real_of_int hi / (0.5 * real_of_int fs))) Band"
  by (simp add: filter_design_def normalize_def truediv_def)

lemma filter_design_zero_rate:
  "filter_design D ord (Single k) 0 High = Inl ZeroDivisionError"
  by (simp add: filter_design_def normalize_def truediv_def)

lemma design_low_nyquist:
  assumes "0 < fs" "real_of_int fs / 2 \<le> real_of_int k"
  shows "filter_design D ord (Single k) fs Low = Inl InvalidCutoffError"
  using assms by (simp add: filter_design_single butter_def field_simps)

lemma design_band_nyquist:
  assumes "0 < fs" "real_of_int fs / 2 \<le> real_of_int lo \<or> real_of_int fs / 2 \<le> real_of_int hi"
  shows "filter_design D ord (Edges lo hi) fs Band = Inl InvalidCutoffError"
  using assms by (auto simp add: filter_design_edges butter_def field_simps)

lemma design_band_order:
  assumes "0 < fs" "hi \<le> lo"
  shows "filter_design D ord (Edges lo hi) fs Band = Inl InvalidCutoffError"
  using assms by (auto simp add: filter_design_edges butter_def field_simps)

lemma design_band_high_nonpositive:
  assumes "0 < fs" "hi \<le> 0"
  shows "filter_design D ord (Edges lo hi) fs Band = Inl InvalidCutoffError"
  using assms by (auto simp add: filter_design_edges butter_def field_simps)

lemma butter_filter_error:
  assumes "0 < fs" "butter_filter D y (Single k) fs bt ord = Inl e" "bt \<noteq> Band"
  shows "e = InvalidCutoffError"
  using assms
  by (auto simp: butter_filter_def filter_design_single butter_def split: sum.splits if_splits)

lemma apply_filters_lowpass_skipped:
  assumes "real_of_int sr / 2 \<le> real_of_int lp"
  shows "apply_filters D y sr hp lp bl bh = apply_filters D y sr hp (FILTER_LOWER_BOUND - 1) bl bh"
proof -
  have "\<not> (lp > FILTER_LOWER_BOUND \<and> real_of_int lp < real_of_int sr / 2)"
    using assms by simp
  moreover have "\<not> (FILTER_LOWER_BOUND - 1 > FILTER_LOWER_BOUND
      \<and> real_of_int (FILTER_LOWER_BOUND - 1) < real_of_int sr / 2)"
    by simp
  ultimately show ?thesis
    unfolding apply_filters_body by (simp only: if_False)
qed

lemma apply_filters_band_skipped:
  assumes "real_of_int sr / 2 \<le> real_of_int bh"
  shows "apply_filters D y sr hp lp bl bh = apply_filters D y sr hp lp (FILTER_LOWER_BOUND - 1) bh"
proof -
  have "\<not> (bl > FILTER_LOWER_BOUND \<and> real_of_int bh < real_of_int sr / 2)"
    using assms by simp
  moreover have "\<not> (FILTER_LOWER_BOUND - 1 > FILTER_LOWER_BOUND
      \<and> real_of_int bh < real_of_int sr / 2)"
    by simp
  ultimately show ?thesis
    unfolding apply_filters_body by (simp only: if_False)
qed

lemma apply_filters_band_only:
  "apply_filters D y sr (FILTER_LOWER_BOUND - 1) (FILTER_LOWER_BOUND - 1) bl bh =
     (if bl > FILTER_LOWER_BOUND \<and> real_of_int bh < real_of_int sr / 2
      then butter_filter D y (Edges bl bh) sr Band 5 else Inr y)"
  by (simp add: apply_filters_body)


section \<open>Length of the filtered buffer\<close>

lemma length_lfilter_from: "length (lfilter_from b a xp yp xs) = length xs"
  by (induction xs arbitrary: xp yp) (simp_all add: Let_def)

lemma length_lfilter: "length (lfilter b a x) = length x"
  by (simp add: lfilter_def length_lfilter_from)

lemma length_butter_filter:
  "butter_filter D data c fs bt ord = Inr y \<Longrightarrow> length y = length data"
  by (auto simp: butter_filter_def length_lfilter split: sum.splits prod.splits)


lemma butter_filter_band_error:
  assumes "filter_design D ord (Edges lo hi) fs Band = Inl e"
  shows "butter_filter D y (Edges lo hi) fs Band ord = Inl e"
  using assms by (simp add: butter_filter_def)

lemma length_apply_filters:
  assumes "apply_filters D B sr hp lp bl bh = Inr B'"
  shows "length B' = length B"
proof -
  define g1 where "g1 = (hp > FILTER_LOWER_BOUND)"
  define g2 where "g2 = (lp > FILTER_LOWER_BOUND \<and> real_of_int lp < real_of_int sr / 2)"
  define g3 where "g3 = (bl > FILTER_LOWER_BOUND \<and> real_of_int bh < real_of_int sr / 2)"
  obtain y1 where y1: "(if g1 then butter_filter D B (Single hp) sr High 5 else Inr B) = Inr y1"
    using assms unfolding apply_filters_body g1_def by (auto split: sum.splits)
  obtain y2 where y2: "(if g2 then butter_filter D y1 (Single lp) sr Low 5 else Inr y1) = Inr y2"
    using assms y1 unfolding apply_filters_body g1_def g2_def by (auto split: sum.splits)
  have y3: "(if g3 then butter_filter D y2 (Edges bl bh) sr Band 5 else Inr y2) = Inr B'"
    using assms y1 y2 unfolding apply_filters_body g1_def g2_def g3_def by (auto split: sum.splits)
  have "length y1 = length B"
    using y1 by (cases g1) (simp_all add: length_butter_filter)
  moreover have "length y2 = length y1"
    using y2 by (cases g2) (simp_all add: length_butter_filter)
  moreover have "length B' = length y2"
    using y3 by (cases g3) (simp_all add: length_butter_filter)
  ultimately show ?thesis by simp
qed


text \<open>
  C5. Whenever a filter stage succeeds, the buffer it returns is as long as the buffer it
  was given; hence the buffer the chain returns is as long as its input, whichever
  stages ran.
\<close>

theorem filter_length_preserved:
  "(butter_filter D data c fs bt ord = Inr y \<longrightarrow> length y = length data)
   \<and> (apply_filters D B sr hp lp bl bh = Inr B' \<longrightarrow> length B' = length B)"
  using length_butter_filter length_apply_filters by blast

lemma eval_butter_filter_high:
  "butter_filter (\<lambda>order Wn bt. ([1, 2], [1, 1 / 2])) [1, 2, 3] (Single 1000) 22050 High 5
     = Inr [1, 7 / 2, 21 / 4]"
  by (simp add: butter_filter_def filter_design_def normalize_def truediv_def butter_def
      lfilter_def dot_def)

theorem filter_length_preserved_witness:
  "butter_filter (\<lambda>order Wn bt. ([1, 2], [1, 1 / 2])) [1, 2, 3] (Single 1000) 22050 High 5
     = Inr [1, 7 / 2, 21 / 4]
   \<and> length [1, 7 / 2, 21 / 4 :: real] = length [1, 2, 3 :: real]
   \<and> apply_filters (\<lambda>order Wn bt. ([1, 2], [1, 1 / 2])) [1, 2, 3] 22050 1000 (- 1) (- 1) (- 1)
     = Inr [1, 7 / 2, 21 / 4]"
  using filter_length_preserved [of "\<lambda>order Wn bt. ([1, 2], [1, 1 / 2])" "[1, 2, 3]" "Single 1000"
      22050 High 5 "[1, 7 / 2, 21 / 4]" "[1, 2, 3]" 22050 1000 "- 1" "- 1" "- 1" "[1, 7 / 2, 21 / 4]"]
  by (simp add: eval_butter_filter_high apply_filters_body FILTER_LOWER_BOUND_def)

section \<open>Cutoffs at or above the Nyquist frequency\<close>

text \<open>
  The claim C2 as written fails for the low edge of the band: at 22050 Hz, with the edges
  15000 and 5000, the low edge is above Nyquist, the guard of the band stage still holds,
  the chain calls \<^verbatim>\<open>butter_filter\<close> and the call fails.
\<close>

theorem band_low_edge_above_nyquist_reached:
  "real_of_int 22050 / 2 \<le> real_of_int 15000
   \<and> apply_filters (\<lambda>order Wn bt. ([1, 2], [1, 1 / 2])) [1, 2, 3] 22050 (- 1) (- 1) 15000 5000
       = butter_filter (\<lambda>order Wn bt. ([1, 2], [1, 1 / 2])) [1, 2, 3] (Edges 15000 5000) 22050 Band 5
   \<and> apply_filters (\<lambda>order Wn bt. ([1, 2], [1, 1 / 2])) [1, 2, 3] 22050 (- 1) (- 1) 15000 5000
       = Inl InvalidCutoffError"
  by (simp add: apply_filters_body FILTER_LOWER_BOUND_def butter_filter_def filter_design_def
      normalize_def truediv_def butter_def)

text \<open>
  C2, amended. At a positive sample rate: the designer rejects a low-pass cutoff at or
  above Nyquist, and a band with either edge at or above Nyquist. The chain skips the
  low-pass stage when its cutoff is at or above Nyquist, and the band-pass stage when the
  high edge is: the result is that of the chain with the stage disabled. The guard of the
  band stage does not compare the low edge with Nyquist: a low edge above 0 and at or above
  Nyquist, with the high edge below Nyquist, reaches the designer and fails there.
\<close>

theorem nyquist_rejection:
  assumes "0 < sr"
  shows "(real_of_int sr / 2 \<le> real_of_int c \<longrightarrow>
            filter_design D ord (Single c) sr Low = Inl InvalidCutoffError)
    \<and> (real_of_int sr / 2 \<le> real_of_int lo \<or> real_of_int sr / 2 \<le> real_of_int hi \<longrightarrow>
            filter_design D ord (Edges lo hi) sr Band = Inl InvalidCutoffError)
    \<and> (real_of_int sr / 2 \<le> real_of_int lp \<longrightarrow>
            apply_filters D y sr hp lp bl bh
              = apply_filters D y sr hp (FILTER_LOWER_BOUND - 1) bl bh)
    \<and> (real_of_int sr / 2 \<le> real_of_int bh \<longrightarrow>
            apply_filters D y sr hp lp bl bh
              = apply_filters D y sr hp lp (FILTER_LOWER_BOUND - 1) bh)
    \<and> (0 < lo \<and> real_of_int hi < real_of_int sr / 2 \<and> real_of_int sr / 2 \<le> real_of_int lo \<longrightarrow>
            apply_filters D y sr (FILTER_LOWER_BOUND - 1) (FILTER_LOWER_BOUND - 1) lo hi
              = Inl InvalidCutoffError)"
proof -
  have low: "real_of_int sr / 2 \<le> real_of_int c \<longrightarrow>
      filter_design D ord (Single c) sr Low = Inl InvalidCutoffError"
    using assms design_low_nyquist by blast
  have band: "real_of_int sr / 2 \<le> real_of_int lo \<or> real_of_int sr / 2 \<le> real_of_int hi \<longrightarrow>
      filter_design D ord (Edges lo hi) sr Band = Inl InvalidCutoffError"
    using assms design_band_nyquist by blast
  have skip_low: "real_of_int sr / 2 \<le> real_of_int lp \<longrightarrow>
      apply_filters D y sr hp lp bl bh = apply_filters D y sr hp (FILTER_LOWER_BOUND - 1) bl bh"
    using apply_filters_lowpass_skipped by blast
  have skip_band: "real_of_int sr / 2 \<le> real_of_int bh \<longrightarrow>
      apply_filters D y sr hp lp bl bh = apply_filters D y sr hp lp (FILTER_LOWER_BOUND - 1) bh"
    using apply_filters_band_skipped by blast
  have reached: "0 < lo \<and> real_of_int hi < real_of_int sr / 2 \<and> real_of_int sr / 2 \<le> real_of_int lo \<longrightarrow>
      apply_filters D y sr (FILTER_LOWER_BOUND - 1) (FILTER_LOWER_BOUND - 1) lo hi
        = Inl InvalidCutoffError"
  proof
    assume h: "0 < lo \<and> real_of_int hi < real_of_int sr / 2 \<and> real_of_int sr / 2 \<le> real_of_int lo"
    then have "filter_design D 5 (Edges lo hi) sr Band = Inl InvalidCutoffError"
      using assms design_band_nyquist by blast
    then have "butter_filter D y (Edges lo hi) sr Band 5 = Inl InvalidCutoffError"
      by (rule butter_filter_band_error)
    with h show "apply_filters D y sr (FILTER_LOWER_BOUND - 1) (FILTER_LOWER_BOUND - 1) lo hi
        = Inl InvalidCutoffError"
      unfolding apply_filters_band_only by (simp add: FILTER_LOWER_BOUND_def)
  qed
  from low band skip_low skip_band reached show ?thesis by blast
qed

theorem nyquist_rejection_witness:
  "(0::int) < 22050
   \<and> real_of_int 22050 / 2 \<le> real_of_int 15000
   \<and> filter_design (\<lambda>order Wn bt. ([1, 2], [1, 1 / 2])) 5 (Single 15000) 22050 Low
       = Inl InvalidCutoffError
   \<and> filter_design (\<lambda>order Wn bt. ([1, 2], [1, 1 / 2])) 5 (Edges 15000 5000) 22050 Band
       = Inl InvalidCutoffError
   \<and> apply_filters (\<lambda>order Wn bt. ([1, 2], [1, 1 / 2])) [1, 2, 3] 22050 (- 1) 15000 100 15000
       = Inr [1, 2, 3]
   \<and> 0 < (15000::int) \<and> real_of_int 5000 < real_of_int 22050 / 2
   \<and> apply_filters (\<lambda>order Wn bt. ([1, 2], [1, 1 / 2])) [1, 2, 3] 22050 (- 1) (- 1) 15000 5000
       = Inl InvalidCutoffError"
  using nyquist_rejection [where sr = 22050 and c = 15000 and lo = 15000 and hi = 5000
      and lp = 15000 and bh = 15000 and hp = "- 1" and bl = 100
      and D = "\<lambda>order Wn bt. ([1, 2], [1, 1 / 2])" and ord = 5 and y = "[1, 2, 3]"]
  by (simp add: FILTER_LOWER_BOUND_def apply_filters_body)

section \<open>A band whose low edge is not below its high edge\<close>

lemma normalize_edges:
  "fs \<noteq> 0 \<Longrightarrow> normalize Band (Edges lo hi) (0.5 * real_of_int fs) =
     Inr (NEdges (real_of_int lo / (0.5 * real_of_int fs)) (real_of_int hi / (0.5 * real_of_int fs)))"
  by (simp add: normalize_def truediv_def)

lemma apply_filters_band_fails:
  assumes sr: "0 < sr"
    and guard: "bl > FILTER_LOWER_BOUND \<and> real_of_int bh < real_of_int sr / 2"
    and band: "filter_design D 5 (Edges bl bh) sr Band = Inl InvalidCutoffError"
  shows "apply_filters D y sr hp lp bl bh = Inl InvalidCutoffError"
proof -
  define g1 where "g1 = (hp > FILTER_LOWER_BOUND)"
  define g2 where "g2 = (lp > FILTER_LOWER_BOUND \<and> real_of_int lp < real_of_int sr / 2)"
  have last: "butter_filter D y2 (Edges bl bh) sr Band 5 = Inl InvalidCutoffError" for y2
    using band by (rule butter_filter_band_error)
  have s1: "e = InvalidCutoffError"
    if "(if g1 then butter_filter D y (Single hp) sr High 5 else Inr y) = Inl e" for e
    using that sr by (cases g1) (auto dest: butter_filter_error)
  have s2: "e = InvalidCutoffError"
    if "(if g2 then butter_filter D y1 (Single lp) sr Low 5 else Inr y1) = Inl e" for e y1
    using that sr by (cases g2) (auto dest: butter_filter_error)
  show ?thesis
    unfolding apply_filters_body g1_def [symmetric] g2_def [symmetric]
    using guard last s1 s2 by (auto split: sum.splits)
qed


text \<open>
  C3. With bandpass_low = 100 and bandpass_high = 50 at a sample rate whose Nyquist
  frequency is above 50, the guard of the band stage holds: with the other stages off the
  chain is the call of \<^verbatim>\<open>butter_filter\<close> on the band, and whatever the other two
  cutoffs are the chain fails with \<^verbatim>\<open>InvalidCutoffError\<close>. At a positive sample rate
  the designer rejects every band whose low edge is not below its high edge.
\<close>

theorem band_low_not_below_high_rejected:
  "(100 < sr \<longrightarrow>
      apply_filters D y sr (FILTER_LOWER_BOUND - 1) (FILTER_LOWER_BOUND - 1) 100 50
        = butter_filter D y (Edges 100 50) sr Band 5
      \<and> apply_filters D y sr hp lp 100 50 = Inl InvalidCutoffError)
   \<and> (0 < fs \<and> hi \<le> lo \<longrightarrow>
        filter_design D ord (Edges lo hi) fs Band = Inl InvalidCutoffError)"
proof -
  have scenario: "apply_filters D y sr (FILTER_LOWER_BOUND - 1) (FILTER_LOWER_BOUND - 1) 100 50
        = butter_filter D y (Edges 100 50) sr Band 5
      \<and> apply_filters D y sr hp lp 100 50 = Inl InvalidCutoffError" if sr: "100 < sr"
  proof -
    from sr have pos: "0 < sr" by simp
    from sr have guard: "100 > FILTER_LOWER_BOUND \<and> real_of_int 50 < real_of_int sr / 2"
      by (simp add: FILTER_LOWER_BOUND_def)
    have "filter_design D 5 (Edges 100 50) sr Band = Inl InvalidCutoffError"
      using pos by (rule design_band_order) simp
    with pos guard have "apply_filters D y sr hp lp 100 50 = Inl InvalidCutoffError"
      by (rule apply_filters_band_fails)
    moreover have "apply_filters D y sr (FILTER_LOWER_BOUND - 1) (FILTER_LOWER_BOUND - 1) 100 50
        = butter_filter D y (Edges 100 50) sr Band 5"
      unfolding apply_filters_band_only using guard by simp
    ultimately show ?thesis by simp
  qed
  moreover have "filter_design D ord (Edges lo hi) fs Band = Inl InvalidCutoffError"
    if "0 < fs \<and> hi \<le> lo"
    using that design_band_order by blast
  ultimately show ?thesis by blast
qed

theorem band_low_not_below_high_rejected_witness:
  "(100::int) < 22050
   \<and> apply_filters (\<lambda>order Wn bt. ([1, 2], [1, 1 / 2])) [1, 2, 3] 22050 (- 1) (- 1) 100 50
       = butter_filter (\<lambda>order Wn bt. ([1, 2], [1, 1 / 2])) [1, 2, 3] (Edges 100 50) 22050 Band 5
   \<and> apply_filters (\<lambda>order Wn bt. ([1, 2], [1, 1 / 2])) [1, 2, 3] 22050 1000 5000 100 50
       = Inl InvalidCutoffError
   \<and> (0::int) < 22050 \<and> (50::int) \<le> 100
   \<and> filter_design (\<lambda>order Wn bt. ([1, 2], [1, 1 / 2])) 5 (Edges 100 50) 22050 Band
       = Inl InvalidCutoffError"
  using band_low_not_below_high_rejected [where sr = 22050 and fs = 22050 and lo = 100
      and hi = 50 and hp = 1000 and lp = 5000 and ord = 5 and y = "[1, 2, 3]"
      and D = "\<lambda>order Wn bt. ([1, 2], [1, 1 / 2])"]
  by (simp add: FILTER_LOWER_BOUND_def)


section \<open>Only the high edge of the band disabled\<close>

text \<open>
  C10. At a positive sample rate, with the high edge of the band at or below 0 and the
  other two stages off: the band stage is skipped only when the low edge is at or below 0;
  for a low edge above 0 the chain is the call of \<^verbatim>\<open>butter_filter\<close> on the band, the
  normalized high edge handed to the designer is at or below 0, and the call fails with
  \<^verbatim>\<open>InvalidCutoffError\<close>.
\<close>

theorem band_high_disabled_not_skipped:
  assumes "0 < sr" and "bh \<le> 0"
  shows "apply_filters D y sr (FILTER_LOWER_BOUND - 1) (FILTER_LOWER_BOUND - 1) bl bh
           = (if 0 < bl then butter_filter D y (Edges bl bh) sr Band 5 else Inr y)
     \<and> (\<exists>l h. normalize Band (Edges bl bh) (0.5 * real_of_int sr) = Inr (NEdges l h) \<and> h \<le> 0)
     \<and> butter_filter D y (Edges bl bh) sr Band 5 = Inl InvalidCutoffError"
proof -
  from assms have guard: "real_of_int bh < real_of_int sr / 2" by simp
  have chain: "apply_filters D y sr (FILTER_LOWER_BOUND - 1) (FILTER_LOWER_BOUND - 1) bl bh
      = (if 0 < bl then butter_filter D y (Edges bl bh) sr Band 5 else Inr y)"
    unfolding apply_filters_band_only using guard by (simp add: FILTER_LOWER_BOUND_def)
  from assms have nz: "sr \<noteq> 0" by simp
  from assms have "real_of_int bh / (0.5 * real_of_int sr) \<le> 0"
    by (simp add: field_simps)
  with normalize_edges [OF nz, of bl bh]
  have norm: "\<exists>l h. normalize Band (Edges bl bh) (0.5 * real_of_int sr) = Inr (NEdges l h) \<and> h \<le> 0"
    by blast
  have "filter_design D 5 (Edges bl bh) sr Band = Inl InvalidCutoffError"
    using assms by (rule design_band_high_nonpositive)
  then have fails: "butter_filter D y (Edges bl bh) sr Band 5 = Inl InvalidCutoffError"
    by (rule butter_filter_band_error)
  from chain norm fails show ?thesis by blast
qed

theorem band_high_disabled_not_skipped_witness:
  "(0::int) < 22050 \<and> (- 1::int) \<le> 0
   \<and> apply_filters (\<lambda>order Wn bt. ([1, 2], [1, 1 / 2])) [1, 2, 3] 22050 (- 1) (- 1) 100 (- 1)
       = Inl InvalidCutoffError
   \<and> apply_filters (\<lambda>order Wn bt. ([1, 2], [1, 1 / 2])) [1, 2, 3] 22050 (- 1) (- 1) 0 (- 1)
       = Inr [1, 2, 3]"
  using band_high_disabled_not_skipped [where sr = 22050 and bh = "- 1" and bl = 100
      and y = "[1, 2, 3]" and D = "\<lambda>order Wn bt. ([1, 2], [1, 1 / 2])"]
    band_high_disabled_not_skipped [where sr = 22050 and bh = "- 1" and bl = 0
      and y = "[1, 2, 3]" and D = "\<lambda>order Wn bt. ([1, 2], [1, 1 / 2])"]
  by (simp add: FILTER_LOWER_BOUND_def)

section \<open>Degenerate input to the pipeline\<close>

lemma filter_design_not_decode:
  "filter_design D ord c fs bt \<noteq> Inl DecodeUnavailableError"
  by (cases c; cases bt)
     (simp_all add: filter_design_def normalize_def truediv_def butter_def Let_def)

lemma butter_filter_not_decode:
  "butter_filter D y c fs bt ord \<noteq> Inl DecodeUnavailableError"
  using filter_design_not_decode [of D ord c fs bt]
  by (auto simp: butter_filter_def split: sum.splits)

lemma apply_filters_not_decode:
  "apply_filters D y sr hp lp bl bh \<noteq> Inl DecodeUnavailableError"
proof -
  define g1 where "g1 = (hp > FILTER_LOWER_BOUND)"
  define g2 where "g2 = (lp > FILTER_LOWER_BOUND \<and> real_of_int lp < real_of_int sr / 2)"
  define g3 where "g3 = (bl > FILTER_LOWER_BOUND \<and> real_of_int bh < real_of_int sr / 2)"
  show ?thesis
    unfolding apply_filters_body g1_def [symmetric] g2_def [symmetric] g3_def [symmetric]
    using butter_filter_not_decode
    by (cases g1; cases g2; cases g3) (auto split: sum.splits)
qed

lemma apply_filters_zero_rate:
  assumes "0 < hp"
  shows "apply_filters D y 0 hp lp bl bh = Inl ZeroDivisionError"
proof -
  have "butter_filter D y (Single hp) 0 High 5 = Inl ZeroDivisionError"
    by (simp add: butter_filter_def filter_design_zero_rate)
  with assms show ?thesis
    by (simp add: apply_filters_body FILTER_LOWER_BOUND_def)
qed


text \<open>
  The claim C8 as written fails: \<^verbatim>\<open>analyze_audio\<close> has no test of the buffer or of
  the sample rate. With every cutoff off, an empty buffer at 22050 Hz, and a buffer at
  sample rate 0, both reach the feature computations, whose result the pipeline returns.
\<close>

theorem analyze_audio_degenerate_input_computed:
  "analyze_audio (\<lambda>order Wn bt. ([1, 2], [1, 1 / 2])) (\<lambda>file. Inr ([], 22050))
       (\<lambda>filename y sr. Inr (length y)) ''clips/a.wav'' (- 1) (- 1) (- 1) (- 1) = Inr 0
   \<and> analyze_audio (\<lambda>order Wn bt. ([1, 2], [1, 1 / 2])) (\<lambda>file. Inr ([1, 2, 3], 0))
       (\<lambda>filename y sr. Inr (length y)) ''clips/a.wav'' (- 1) (- 1) (- 1) (- 1) = Inr 3"
  by (simp add: analyze_audio_def apply_filters_body FILTER_LOWER_BOUND_def)


text \<open>
  C8, amended. Once the decoder has returned a buffer and a sample rate, the pipeline
  makes no check of them. With every cutoff disabled its result is that of the feature
  computations on the buffer and the rate as they are, empty or zero included. With the
  high-pass stage on and the sample rate zero the chain fails with a division by zero.
  The pipeline never fails with \<^verbatim>\<open>DecodeUnavailableError\<close> of its own: such a failure
  can only be one of the feature computations.
\<close>

theorem analyze_audio_no_input_check:
  assumes "load f = Inr (y, sr)"
  shows "analyze_audio D load feats f (FILTER_LOWER_BOUND - 1) (FILTER_LOWER_BOUND - 1)
             (FILTER_LOWER_BOUND - 1) (FILTER_LOWER_BOUND - 1) = feats (basename f) y sr
    \<and> (sr = 0 \<and> 0 < hp \<longrightarrow>
          analyze_audio D load feats f hp lp bl bh = Inl ZeroDivisionError)
    \<and> (analyze_audio D load feats f hp' lp' bl' bh' = Inl DecodeUnavailableError \<longrightarrow>
          (\<exists>y'. feats (basename f) y' sr = Inl DecodeUnavailableError))"
proof -
  have off: "analyze_audio D load feats f (FILTER_LOWER_BOUND - 1) (FILTER_LOWER_BOUND - 1)
      (FILTER_LOWER_BOUND - 1) (FILTER_LOWER_BOUND - 1) = feats (basename f) y sr"
    using assms by (simp add: analyze_audio_def apply_filters_body)
  have zero: "analyze_audio D load feats f hp lp bl bh = Inl ZeroDivisionError"
    if "sr = 0 \<and> 0 < hp"
    using that assms by (simp add: analyze_audio_def apply_filters_zero_rate)
  have decode: "\<exists>y'. feats (basename f) y' sr = Inl DecodeUnavailableError"
    if "analyze_audio D load feats f hp' lp' bl' bh' = Inl DecodeUnavailableError"
  proof (cases "apply_filters D y sr hp' lp' bl' bh'")
    case (Inl e)
    with that assms have "e = DecodeUnavailableError"
      by (simp add: analyze_audio_def)
    with Inl apply_filters_not_decode show ?thesis by blast
  next
    case (Inr y')
    with that assms have "feats (basename f) y' sr = Inl DecodeUnavailableError"
      by (simp add: analyze_audio_def)
    then show ?thesis ..
  qed
  from off zero decode show ?thesis by blast
qed

theorem analyze_audio_no_input_check_witness:
  "analyze_audio (\<lambda>order Wn bt. ([1, 2], [1, 1 / 2])) (\<lambda>file. Inr ([], 0))
       (\<lambda>filename y sr. Inr (filename, length y)) ''clips/a.wav'' (- 1) (- 1) (- 1) (- 1)
     = Inr (''a.wav'', 0)
   \<and> analyze_audio (\<lambda>order Wn bt. ([1, 2], [1, 1 / 2])) (\<lambda>file. Inr ([], 0))
       (\<lambda>filename y sr. Inr (filename, length y)) ''clips/a.wav'' 1000 (- 1) (- 1) (- 1)
     = Inl ZeroDivisionError
   \<and> analyze_audio (\<lambda>order Wn bt. ([1, 2], [1, 1 / 2])) (\<lambda>file. Inr ([], 0))
       (\<lambda>filename y sr. if y = [] then Inl DecodeUnavailableError else Inr (length y))
       ''clips/a.wav'' (- 1) (- 1) (- 1) (- 1)
     = Inl DecodeUnavailableError"
  using analyze_audio_no_input_check [where load = "\<lambda>file. Inr ([], 0)" and f = "''clips/a.wav''"
      and y = "[]" and sr = 0 and hp = 1000 and lp = "- 1" and bl = "- 1" and bh = "- 1"
      and hp' = "- 1" and lp' = "- 1" and bl' = "- 1" and bh' = "- 1"
      and D = "\<lambda>order Wn bt. ([1, 2], [1, 1 / 2])"
      and feats = "\<lambda>filename y sr. Inr (filename, length y)"]
    analyze_audio_no_input_check [where load = "\<lambda>file. Inr ([], 0)" and f = "''clips/a.wav''"
      and y = "[]" and sr = 0 and hp = 1000 and lp = "- 1" and bl = "- 1" and bh = "- 1"
      and hp' = "- 1" and lp' = "- 1" and bl' = "- 1" and bh' = "- 1"
      and D = "\<lambda>order Wn bt. ([1, 2], [1, 1 / 2])"
      and feats = "\<lambda>filename y sr. if y = [] then Inl DecodeUnavailableError else Inr (length y)"]
  by (simp add: FILTER_LOWER_BOUND_def basename_def)

section \<open>The store: inputs kept, results fresh\<close>

lemma butter_filter_st_pure:
  "butter_filter_st D s data c fs bt ord =
     (case butter_filter D (s ! data) c fs bt ord of
        Inl e \<Rightarrow> Inl e
      | Inr v \<Rightarrow> Inr (s @ [v], length s))"
  by (simp add: butter_filter_st_def butter_filter_def lfilter_st_def new_array_def
      split: sum.splits prod.splits)

lemma butter_filter_st_extends:
  assumes "butter_filter_st D s data c fs bt ord = Inr (s', r)"
  shows "take (length s) s' = s \<and> length s \<le> length s'"
  using assms by (auto simp: butter_filter_st_pure split: sum.splits)

lemma apply_filters_st_extends:
  assumes "apply_filters_st D s y sr hp lp bl bh = Inr (s', r)"
  shows "take (length s) s' = s \<and> length s \<le> length s'"
proof -
  define g1 where "g1 = (hp > FILTER_LOWER_BOUND)"
  define g2 where "g2 = (lp > FILTER_LOWER_BOUND \<and> real_of_int lp < real_of_int sr / 2)"
  define g3 where "g3 = (bl > FILTER_LOWER_BOUND \<and> real_of_int bh < real_of_int sr / 2)"
  obtain s1 y1 where st1:
    "(if g1 then butter_filter_st D s y (Single hp) sr High 5 else Inr (s, y)) = Inr (s1, y1)"
    using assms unfolding apply_filters_st_def g1_def by (auto split: sum.splits)
  obtain s2 y2 where st2:
    "(if g2 then butter_filter_st D s1 y1 (Single lp) sr Low 5 else Inr (s1, y1)) = Inr (s2, y2)"
    using assms st1 unfolding apply_filters_st_def g1_def g2_def by (auto split: sum.splits)
  have st3:
    "(if g3 then butter_filter_st D s2 y2 (Edges bl bh) sr Band 5 else Inr (s2, y2)) = Inr (s', r)"
    using assms st1 st2 unfolding apply_filters_st_def g1_def g2_def g3_def
    by (auto split: sum.splits)
  have e1: "take (length s) s1 = s \<and> length s \<le> length s1"
    using st1 by (cases g1) (simp_all add: butter_filter_st_extends)
  have e2: "take (length s1) s2 = s1 \<and> length s1 \<le> length s2"
    using st2 by (cases g2) (simp_all add: butter_filter_st_extends)
  have e3: "take (length s2) s' = s2 \<and> length s2 \<le> length s'"
    using st3 by (cases g3) (simp_all add: butter_filter_st_extends)
  have "take (length s) s' = take (length s) (take (length s1) (take (length s2) s'))"
    using e1 e2 by (simp add: min_def)
  also have "\<dots> = s" using e1 e2 e3 by simp
  finally show ?thesis using e1 e2 e3 by simp
qed

lemma eval_butter_filter_st:
  "butter_filter_st (\<lambda>order Wn bt. ([1, 2], [1, 1 / 2])) [[1, 2, 3]] 0 (Single 1000) 22050 High 5
     = Inr ([[1, 2, 3], [1, 7 / 2, 21 / 4]], 1)"
  by (simp add: butter_filter_st_def filter_design_def normalize_def truediv_def butter_def
      lfilter_st_def new_array_def lfilter_def dot_def)

lemma eval_apply_filters_st:
  "apply_filters_st (\<lambda>order Wn bt. ([1, 2], [1, 1 / 2])) [[1, 2, 3]] 0 22050 1000 (- 1) (- 1) (- 1)
     = Inr ([[1, 2, 3], [1, 7 / 2, 21 / 4]], 1)"
  by (simp add: apply_filters_st_def FILTER_LOWER_BOUND_def eval_butter_filter_st)


text \<open>
  C7. Applying a filter does not mutate its input and yields a fresh buffer: after a
  successful \<^verbatim>\<open>butter_filter\<close> on the array at \<open>data\<close>, that array and every other
  array of the store hold what they held before, the result is at an address the store
  did not have, and it holds the filtered samples. The whole chain likewise leaves its
  input array, and every array that existed before the call, unchanged.
\<close>

theorem butter_filter_keeps_input:
  assumes "data < length s" and "butter_filter_st D s data c fs bt ord = Inr (s', r)"
  shows "s' ! data = s ! data \<and> take (length s) s' = s \<and> r = length s
    \<and> length s' = Suc (length s) \<and> butter_filter D (s ! data) c fs bt ord = Inr (s' ! r)
    \<and> (apply_filters_st D s data sr hp lp bl bh = Inr (t, q) \<longrightarrow>
          t ! data = s ! data \<and> take (length s) t = s)"
proof -
  obtain v where v: "butter_filter D (s ! data) c fs bt ord = Inr v"
    and s': "s' = s @ [v]" and r: "r = length s"
    using assms(2) by (auto simp: butter_filter_st_pure split: sum.splits)
  have stage: "s' ! data = s ! data \<and> take (length s) s' = s \<and> r = length s
    \<and> length s' = Suc (length s) \<and> butter_filter D (s ! data) c fs bt ord = Inr (s' ! r)"
    using assms(1) v s' r by (simp add: nth_append)
  have chain: "t ! data = s ! data \<and> take (length s) t = s"
    if "apply_filters_st D s data sr hp lp bl bh = Inr (t, q)"
  proof -
    from apply_filters_st_extends [OF that] have t: "take (length s) t = s" by simp
    from assms(1) have "t ! data = take (length s) t ! data" by simp
    with t show ?thesis by simp
  qed
  from stage chain show ?thesis by blast
qed

theorem butter_filter_keeps_input_witness:
  "(0::nat) < length [[1, 2, 3 :: real]]
   \<and> butter_filter_st (\<lambda>order Wn bt. ([1, 2], [1, 1 / 2])) [[1, 2, 3]] 0 (Single 1000) 22050 High 5
       = Inr ([[1, 2, 3], [1, 7 / 2, 21 / 4]], 1)
   \<and> [[1, 2, 3], [1, 7 / 2, 21 / 4 :: real]] ! 0 = [[1, 2, 3]] ! 0
   \<and> apply_filters_st (\<lambda>order Wn bt. ([1, 2], [1, 1 / 2])) [[1, 2, 3]] 0 22050 1000 (- 1) (- 1) (- 1)
       = Inr ([[1, 2, 3], [1, 7 / 2, 21 / 4]], 1)"
  using butter_filter_keeps_input [where s = "[[1, 2, 3]]" and data = 0 and c = "Single 1000"
      and fs = 22050 and bt = High and ord = 5 and D = "\<lambda>order Wn bt. ([1, 2], [1, 1 / 2])"
      and s' = "[[1, 2, 3], [1, 7 / 2, 21 / 4]]" and r = 1 and sr = 22050 and hp = 1000
      and lp = "- 1" and bl = "- 1" and bh = "- 1" and t = "[[1, 2, 3], [1, 7 / 2, 21 / 4]]"
      and q = 1]
  by (simp add: eval_butter_filter_st eval_apply_filters_st)

end
